theory Spec2Isabelle
  imports Main
begin

section \<open>Errors\<close>

text \<open>
  The Python exceptions that occur in \<^verbatim>\<open>routers/tasks.py\<close>: the two that the handlers
  catch, and the \<^verbatim>\<open>AttributeError\<close> of a method call on \<^verbatim>\<open>None\<close>.
\<close>

datatype py_error = FileNotFoundError | IndexError | AttributeError

text \<open>
  What a handler answers when it does not return normally: one of the three
  \<^verbatim>\<open>HTTPException\<close>s it raises itself, or an exception nobody catches, which the framework
  turns into an internal server error.
\<close>

datatype http_error = NotFoundTask | NotFoundTheme | EmptyRequest | Unhandled py_error

fun status_code :: "http_error \<Rightarrow> nat" where
  "status_code NotFoundTask = 404"
| "status_code NotFoundTheme = 404"
| "status_code EmptyRequest = 422"
| "status_code (Unhandled e) = 500"

section \<open>Data model\<close>

text \<open>The file titles that the handlers pass to \<^verbatim>\<open>FileUtils\<close>.\<close>

datatype resource = theme_index | task_info | task_input | task_output | task_code

text \<open>
  Modelled from the spec: one entry of the theme index, which the spec gives the fields
  \<^verbatim>\<open>id\<close> and \<^verbatim>\<open>count\<close>. The handlers read and write \<^verbatim>\<open>count\<close> only
  (\<^verbatim>\<open>themes_json[theme_id].get("count")\<close>).
\<close>

record theme =
  th_id :: int
  count :: int

text \<open>
  The dictionary \<^verbatim>\<open>task_description\<close> that \<^verbatim>\<open>create_task\<close> stores under \<^verbatim>\<open>task_info\<close>, with
  the keys \<^verbatim>\<open>id\<close>, \<^verbatim>\<open>theme_id\<close>, \<^verbatim>\<open>title\<close> and \<^verbatim>\<open>description\<close> (lines 60 and 61).
\<close>

record info =
  info_id :: int
  info_theme_id :: int
  info_title :: string
  info_description :: string

text \<open>
  Modelled from the spec: the schema \<^verbatim>\<open>TaskCreate\<close> of \<^verbatim>\<open>schemas/tasks.py\<close>, which is not
  among the sources. The spec's payload of a create has a title, a description, an input
  sequence and an output sequence. The type of a fixture value is left open (\<open>'v\<close>). The
  code blob comes beside the payload, as an upload: a sequence of bytes, written as a
  \<open>string\<close>.
\<close>

record 'v task_create =
  title :: string
  description :: string
  input :: "'v list"
  "output" :: "'v list"

text \<open>
  Modelled from the spec: the schema \<^verbatim>\<open>Task\<close> of \<^verbatim>\<open>schemas/tasks.py\<close>, the payload with the
  fields \<^verbatim>\<open>id\<close> (here \<open>ident\<close>) and \<^verbatim>\<open>theme_id\<close> (here \<open>theme_ident\<close>).
\<close>

record 'v task = "'v task_create" +
  ident :: int
  theme_ident :: int

text \<open>
  Modelled from the spec: the schema \<^verbatim>\<open>TaskUpdate\<close> of \<^verbatim>\<open>schemas/tasks.py\<close>, the fields of
  a task, each of them optional. \<^verbatim>\<open>update_task\<close> assigns \<^verbatim>\<open>task.theme_id\<close> and \<^verbatim>\<open>task.id\<close>
  and reads the other four with \<^verbatim>\<open>.get\<close>. The route answers with this schema
  (\<^verbatim>\<open>response_model=TaskUpdate\<close>).
\<close>

record 'v task_update =
  upd_id :: "int option"
  upd_theme_id :: "int option"
  upd_title :: "string option"
  upd_description :: "string option"
  upd_input :: "'v list option"
  upd_output :: "'v list option"

text \<open>A mutation that the storage engine has carried out.\<close>

datatype mutation =
  Saved resource "int option" "int option"
| Removed resource int int

text \<open>
  Modelled from the spec: the persisted layout behind \<^verbatim>\<open>utilities/file_scripts.py\<close>, which
  is not among the sources. The spec has one addressable resource for each
  (kind, theme id, task id), and one theme index, an ordered sequence of entries addressed
  by position. A structured record, a sequence of values and a blob of bytes are kept in
  three maps over the same keys. \<open>journal\<close> lists the mutations carried out so far, in the
  order of the calls.
\<close>

type_synonym key = "resource \<times> int \<times> int"

record 'v storage =
  themes :: "theme list"
  records :: "key \<rightharpoonup> info"
  sequences :: "key \<rightharpoonup> 'v list"
  blobs :: "key \<rightharpoonup> string"
  journal :: "mutation list"

section \<open>Python list indexing\<close>

text \<open>
  \<^verbatim>\<open>xs[i]\<close> on a Python list: a negative index counts from the end, and an index outside
  \<open>-len .. len - 1\<close> raises \<^verbatim>\<open>IndexError\<close> (\<open>None\<close> here).
\<close>

definition py_index :: "'a list \<Rightarrow> int \<Rightarrow> nat option" where
  "py_index xs i =
     (if 0 \<le> i \<and> i < int (length xs) then Some (nat i)
      else if i < 0 \<and> - int (length xs) \<le> i then Some (nat (int (length xs) + i))
      else None)"

definition py_get :: "'a list \<Rightarrow> int \<Rightarrow> 'a option" where
  "py_get xs i = (case py_index xs i of None \<Rightarrow> None | Some j \<Rightarrow> Some (xs ! j))"

section \<open>The storage engine\<close>

text \<open>
  The class \<^verbatim>\<open>FileUtils\<close> of \<^verbatim>\<open>utilities/file_scripts.py\<close> is not among the sources: the
  handlers call it, and section 4.1 of the spec gives its contract. Each of its operations
  is modelled from that contract, one function for each type of content that the handlers
  pass or expect. Every operation returns the exception it raises (\<open>Inl\<close>) or its result
  (\<open>Inr\<close>), so that each \<^verbatim>\<open>except\<close> clause of a handler is a branch of the model.
\<close>

text \<open>
  Modelled from the spec: whether the theme index has an entry for a theme id, the
  "out-of-range lookup" of section 4.1. The index is an ordered sequence addressed by
  position, so the lookup is that of a Python list.
\<close>

definition theme_exists :: "'v storage \<Rightarrow> int \<Rightarrow> bool" where
  "theme_exists s theme_id = (py_index (themes s) theme_id \<noteq> None)"

text \<open>
  Modelled from the spec: \<^verbatim>\<open>FileUtils.open_file('theme_index', theme_id)\<close>. The theme index
  is loaded as a whole; with a theme id that the index has no entry for, the lookup is out
  of range. \<^verbatim>\<open>delete_task\<close> passes no theme id.
\<close>

definition open_file_theme_index :: "'v storage \<Rightarrow> int option \<Rightarrow> py_error + theme list" where
  "open_file_theme_index s theme_id =
     (case theme_id of
        None \<Rightarrow> Inr (themes s)
      | Some t \<Rightarrow> if theme_exists s t then Inr (themes s) else Inl IndexError)"

text \<open>
  Modelled from the spec: \<^verbatim>\<open>FileUtils.open_file\<close> for a structured record
  (\<open>read_record\<close> in section 4.1). It fails with the out-of-range lookup when the theme index
  has no entry for the theme id, and with the missing file when the theme exists and the
  resource is absent.
\<close>

definition open_file :: "resource \<Rightarrow> int \<Rightarrow> int \<Rightarrow> 'v storage \<Rightarrow> py_error + info" where
  "open_file ttl theme_id task_id s =
     (if \<not> theme_exists s theme_id then Inl IndexError
      else case records s (ttl, theme_id, task_id) of
             None \<Rightarrow> Inl FileNotFoundError
           | Some content \<Rightarrow> Inr content)"

text \<open>
  Modelled from the spec: \<^verbatim>\<open>FileUtils.open_file_values\<close> (\<open>read_sequence_values\<close> in
  section 4.1), with the contract of \<open>open_file\<close>, for the input and output values.
\<close>

definition open_file_values :: "resource \<Rightarrow> int \<Rightarrow> int \<Rightarrow> 'v storage \<Rightarrow> py_error + 'v list" where
  "open_file_values ttl theme_id task_id s =
     (if \<not> theme_exists s theme_id then Inl IndexError
      else case sequences s (ttl, theme_id, task_id) of
             None \<Rightarrow> Inl FileNotFoundError
           | Some content \<Rightarrow> Inr content)"

text \<open>
  Modelled from the spec: \<^verbatim>\<open>FileUtils.save_file\<close> for a structured record (\<open>write_record\<close>
  in section 4.1). It persists the content at the location derived from the key, creates
  what is missing on the way and overwrites what is there. Section 4.1 gives a write no
  failure, so the result is always \<open>Inr\<close>.
\<close>

definition save_file :: "resource \<Rightarrow> info \<Rightarrow> int \<Rightarrow> int \<Rightarrow> 'v storage \<Rightarrow> py_error + 'v storage" where
  "save_file ttl content theme_id task_id s =
     Inr (s\<lparr>records := (records s)((ttl, theme_id, task_id) \<mapsto> content),
            journal := journal s @ [Saved ttl (Some theme_id) (Some task_id)]\<rparr>)"

text \<open>
  Modelled from the spec: \<^verbatim>\<open>FileUtils.save_file_values\<close> (\<open>write_sequence_values\<close> in
  section 4.1), the same for an ordered list of values.
\<close>

definition save_file_values ::
  "resource \<Rightarrow> 'v list \<Rightarrow> int \<Rightarrow> int \<Rightarrow> 'v storage \<Rightarrow> py_error + 'v storage" where
  "save_file_values ttl content theme_id task_id s =
     Inr (s\<lparr>sequences := (sequences s)((ttl, theme_id, task_id) \<mapsto> content),
            journal := journal s @ [Saved ttl (Some theme_id) (Some task_id)]\<rparr>)"

text \<open>
  Modelled from the spec: \<^verbatim>\<open>FileUtils.save_file\<close> for the bytes of a code upload.
\<close>

definition save_file_bytes ::
  "resource \<Rightarrow> string \<Rightarrow> int \<Rightarrow> int \<Rightarrow> 'v storage \<Rightarrow> py_error + 'v storage" where
  "save_file_bytes ttl content theme_id task_id s =
     Inr (s\<lparr>blobs := (blobs s)((ttl, theme_id, task_id) \<mapsto> content),
            journal := journal s @ [Saved ttl (Some theme_id) (Some task_id)]\<rparr>)"

text \<open>
  Modelled from the spec: \<^verbatim>\<open>FileUtils.save_file('theme_index', content, \<dots>)\<close>, which
  replaces the theme index. \<^verbatim>\<open>create_task\<close> passes no identifiers, \<^verbatim>\<open>delete_task\<close> passes
  both; the index is one resource whatever they are.
\<close>

definition save_file_theme_index ::
  "theme list \<Rightarrow> int option \<Rightarrow> int option \<Rightarrow> 'v storage \<Rightarrow> py_error + 'v storage" where
  "save_file_theme_index content theme_id task_id s =
     Inr (s\<lparr>themes := content,
            journal := journal s @ [Saved theme_index theme_id task_id]\<rparr>)"

text \<open>Modelled from the spec: whether the resource of a key is there, whatever its content.\<close>

definition present :: "'v storage \<Rightarrow> key \<Rightarrow> bool" where
  "present s k = (records s k \<noteq> None \<or> sequences s k \<noteq> None \<or> blobs s k \<noteq> None)"

text \<open>
  Modelled from the spec: \<^verbatim>\<open>FileUtils.remove_file\<close> (\<open>delete_record\<close> in section 4.1). It
  removes the resource, and fails as a read does when the theme or the resource does not
  exist.
\<close>

definition remove_file :: "resource \<Rightarrow> int \<Rightarrow> int \<Rightarrow> 'v storage \<Rightarrow> py_error + 'v storage" where
  "remove_file ttl theme_id task_id s =
     (if \<not> theme_exists s theme_id then Inl IndexError
      else if \<not> present s (ttl, theme_id, task_id) then Inl FileNotFoundError
      else Inr (s\<lparr>records := (records s)((ttl, theme_id, task_id) := None),
                   sequences := (sequences s)((ttl, theme_id, task_id) := None),
                   blobs := (blobs s)((ttl, theme_id, task_id) := None),
                   journal := journal s @ [Removed ttl theme_id task_id]\<rparr>))"

section \<open>The task handlers\<close>

text \<open>
  The four handlers of \<^verbatim>\<open>routers/tasks.py\<close>. A handler takes the storage and the parameters
  of the request, and returns the storage it leaves behind with its answer: the value it
  returns, or the error it ends with. Routing, the binding of the request to the
  parameters and the rate limiter are outside the handlers.
\<close>

subsection \<open>read_task\<close>

text \<open>
  Lines 21 to 33. The three reads stand in one \<^verbatim>\<open>try\<close>: the first that raises decides the
  answer.
\<close>

definition read_task :: "'v storage \<Rightarrow> int \<Rightarrow> int \<Rightarrow> 'v storage \<times> (http_error + 'v task)" where
  "read_task s theme_id task_id =
     (case open_file task_info theme_id task_id s of
        Inl FileNotFoundError \<Rightarrow> (s, Inl NotFoundTask)
      | Inl IndexError \<Rightarrow> (s, Inl NotFoundTheme)
      | Inl e \<Rightarrow> (s, Inl (Unhandled e))
      | Inr description' \<Rightarrow>
     (case open_file_values task_input theme_id task_id s of
        Inl FileNotFoundError \<Rightarrow> (s, Inl NotFoundTask)
      | Inl IndexError \<Rightarrow> (s, Inl NotFoundTheme)
      | Inl e \<Rightarrow> (s, Inl (Unhandled e))
      | Inr inputs \<Rightarrow>
     (case open_file_values task_output theme_id task_id s of
        Inl FileNotFoundError \<Rightarrow> (s, Inl NotFoundTask)
      | Inl IndexError \<Rightarrow> (s, Inl NotFoundTheme)
      | Inl e \<Rightarrow> (s, Inl (Unhandled e))
      | Inr outputs \<Rightarrow>
          (s, Inr \<lparr>title = info_title description', description = info_description description',
                   input = inputs, output = outputs,
                   ident = info_id description', theme_ident = info_theme_id description'\<rparr>))))"

subsection \<open>create_task\<close>

text \<open>
  The code upload of \<^verbatim>\<open>create_task\<close> is required (\<^verbatim>\<open>File(...)\<close>), so \<open>code\<close> is what
  \<^verbatim>\<open>await code.read()\<close> gives. None of the saves stands in a \<^verbatim>\<open>try\<close>: an exception of
  one of them would leave the handler uncaught, with the earlier saves done.
\<close>

definition create_task ::
  "'v storage \<Rightarrow> int \<Rightarrow> 'v task_create \<Rightarrow> string \<Rightarrow> 'v storage \<times> (http_error + 'v task)" where
  "create_task s theme_id task code =
     (case open_file_theme_index s (Some theme_id) of
        Inl IndexError \<Rightarrow> (s, Inl NotFoundTheme)
      | Inl e \<Rightarrow> (s, Inl (Unhandled e))
      | Inr themes_json \<Rightarrow>
     (case py_index themes_json theme_id of
        None \<Rightarrow> (s, Inl (Unhandled IndexError))
      | Some j \<Rightarrow>
     (let task_id = count (themes_json ! j) + 1;
          task' = \<lparr>title = title task, description = description task,
                   input = input task, output = output task,
                   ident = task_id, theme_ident = theme_id\<rparr>;
          task_description = \<lparr>info_id = ident task', info_theme_id = theme_ident task',
                              info_title = title task', info_description = description task'\<rparr>
      in
     (case save_file task_info task_description theme_id (ident task') s of
        Inl e \<Rightarrow> (s, Inl (Unhandled e))
      | Inr s1 \<Rightarrow>
     (case save_file_values task_input (input task') theme_id (ident task') s1 of
        Inl e \<Rightarrow> (s1, Inl (Unhandled e))
      | Inr s2 \<Rightarrow>
     (case save_file_values task_output (output task') theme_id (ident task') s2 of
        Inl e \<Rightarrow> (s2, Inl (Unhandled e))
      | Inr s3 \<Rightarrow>
     (case save_file_bytes task_code code theme_id (ident task') s3 of
        Inl e \<Rightarrow> (s3, Inl (Unhandled e))
      | Inr s4 \<Rightarrow>
     (case save_file_theme_index
             (themes_json[j := (themes_json ! j)\<lparr>count := task_id\<rparr>]) None None s4 of
        Inl e \<Rightarrow> (s4, Inl (Unhandled e))
      | Inr s5 \<Rightarrow> (s5, Inr task')))))))))"

text \<open>Sequential creates in one theme: the ids handed out, and the storage afterwards.\<close>

fun create_tasks ::
  "'v storage \<Rightarrow> int \<Rightarrow> ('v task_create \<times> string) list \<Rightarrow> 'v storage \<times> (http_error + int list)" where
  "create_tasks s theme_id [] = (s, Inr [])"
| "create_tasks s theme_id ((task, code) # rest) =
     (case create_task s theme_id task code of
        (s', Inl e) \<Rightarrow> (s', Inl e)
      | (s', Inr t) \<Rightarrow>
          (case create_tasks s' theme_id rest of
             (s'', Inl e) \<Rightarrow> (s'', Inl e)
           | (s'', Inr ids) \<Rightarrow> (s'', Inr (ident t # ids))))"

subsection \<open>update_task\<close>

text \<open>Python's truth value of an optional string, list or bytes value.\<close>

definition truthy :: "'a list option \<Rightarrow> bool" where
  "truthy x = (case x of None \<Rightarrow> False | Some v \<Rightarrow> v \<noteq> [])"

text \<open>
  \<^verbatim>\<open>x if x else y\<close> for an optional string \<open>x\<close>.
\<close>

definition if_else :: "'a list option \<Rightarrow> 'a list \<Rightarrow> 'a list" where
  "if_else x y = (case x of None \<Rightarrow> y | Some v \<Rightarrow> if v \<noteq> [] then v else y)"

text \<open>
  Lines 113 to 129, the block that updates the task's description. The result is the storage
  after the block, or the error the block raises; the block has changed nothing when it raises.
\<close>

definition update_description ::
  "'v storage \<Rightarrow> int \<Rightarrow> int \<Rightarrow> string option \<Rightarrow> string option \<Rightarrow> http_error + 'v storage" where
  "update_description s theme_id task_id new_title new_description =
     (if truthy new_title \<or> truthy new_description then
        (case open_file task_info theme_id task_id s of
           Inl FileNotFoundError \<Rightarrow> Inl NotFoundTask
         | Inl IndexError \<Rightarrow> Inl NotFoundTheme
         | Inl e \<Rightarrow> Inl (Unhandled e)
         | Inr task_info' \<Rightarrow>
             (case save_file task_info
                     (task_info'\<lparr>info_title := if_else new_title (info_title task_info'),
                                 info_description :=
                                   if_else new_description (info_description task_info')\<rparr>)
                     theme_id task_id s of
                Inl e \<Rightarrow> Inl (Unhandled e)
              | Inr s' \<Rightarrow> Inr s'))
      else Inr s)"

text \<open>
  Lines 131 to 147, the two blocks that update the input and the output values: only
  \<^verbatim>\<open>FileNotFoundError\<close> is caught.
\<close>

definition update_values ::
  "resource \<Rightarrow> 'v storage \<Rightarrow> int \<Rightarrow> int \<Rightarrow> 'v list option \<Rightarrow> http_error + 'v storage" where
  "update_values ttl s theme_id task_id new_values =
     (case new_values of
        None \<Rightarrow> Inr s
      | Some content \<Rightarrow>
          if content \<noteq> [] then
            (case save_file_values ttl content theme_id task_id s of
               Inl FileNotFoundError \<Rightarrow> Inl NotFoundTask
             | Inl e \<Rightarrow> Inl (Unhandled e)
             | Inr s' \<Rightarrow> Inr s')
          else Inr s)"

text \<open>Lines 149 to 157, the block that updates the code file.\<close>

definition update_code ::
  "'v storage \<Rightarrow> int \<Rightarrow> int \<Rightarrow> string \<Rightarrow> http_error + 'v storage" where
  "update_code s theme_id task_id new_code =
     (if new_code \<noteq> [] then
        (case save_file_bytes task_code new_code theme_id task_id s of
           Inl IndexError \<Rightarrow> Inl NotFoundTheme
         | Inl FileNotFoundError \<Rightarrow> Inl NotFoundTask
         | Inl e \<Rightarrow> Inl (Unhandled e)
         | Inr s' \<Rightarrow> Inr s')
      else Inr s)"

text \<open>
  The code upload of \<^verbatim>\<open>update_task\<close> is optional (\<^verbatim>\<open>File(None)\<close>): \<open>code\<close> is \<open>None\<close> when
  the request has no upload, and otherwise what \<^verbatim>\<open>await code.read()\<close> gives. Line 107 calls
  \<^verbatim>\<open>code.read()\<close> before anything else happens, which on \<^verbatim>\<open>None\<close> is an \<^verbatim>\<open>AttributeError\<close>
  that nobody catches. \<^verbatim>\<open>jsonable_encoder\<close> turns the payload into a dictionary of the same
  fields, so \<open>task_update\<close> is the payload with the two identifiers of the path (lines 101
  to 103). Line 158 builds the answer from \<open>task_update\<close> alone.
\<close>

definition update_task ::
  "'v storage \<Rightarrow> int \<Rightarrow> int \<Rightarrow> 'v task_update \<Rightarrow> string option
     \<Rightarrow> 'v storage \<times> (http_error + 'v task_update)" where
  "update_task s theme_id task_id task code =
     (let task_update = task\<lparr>upd_theme_id := Some theme_id, upd_id := Some task_id\<rparr>
      in
     (case code of
        None \<Rightarrow> (s, Inl (Unhandled AttributeError))
      | Some code_read \<Rightarrow>
          if \<not> (truthy (upd_title task_update) \<or> truthy (upd_description task_update) \<or>
                truthy (upd_input task_update) \<or> truthy (upd_output task_update) \<or>
                code_read \<noteq> [])
          then (s, Inl EmptyRequest)
          else
     (case update_description s theme_id task_id
             (upd_title task_update) (upd_description task_update) of
        Inl e \<Rightarrow> (s, Inl e)
      | Inr s1 \<Rightarrow>
     (case update_values task_input s1 theme_id task_id (upd_input task_update) of
        Inl e \<Rightarrow> (s1, Inl e)
      | Inr s2 \<Rightarrow>
     (case update_values task_output s2 theme_id task_id (upd_output task_update) of
        Inl e \<Rightarrow> (s2, Inl e)
      | Inr s3 \<Rightarrow>
     (case update_code s3 theme_id task_id code_read of
        Inl e \<Rightarrow> (s3, Inl e)
      | Inr s4 \<Rightarrow> (s4, Inr task_update)))))))"

subsection \<open>delete_task\<close>

text \<open>Line 170, the titles in the order of the loop.\<close>

definition files :: "resource list" where
  "files = [task_info, task_input, task_output, task_code]"

text \<open>The loop of lines 171 to 177: the first removal that raises ends the handler.\<close>

fun remove_files :: "resource list \<Rightarrow> int \<Rightarrow> int \<Rightarrow> 'v storage \<Rightarrow> 'v storage \<times> http_error option" where
  "remove_files [] theme_id task_id s = (s, None)"
| "remove_files (ttl # rest) theme_id task_id s =
     (case remove_file ttl theme_id task_id s of
        Inl IndexError \<Rightarrow> (s, Some NotFoundTheme)
      | Inl FileNotFoundError \<Rightarrow> (s, Some NotFoundTask)
      | Inl e \<Rightarrow> (s, Some (Unhandled e))
      | Inr s' \<Rightarrow> remove_files rest theme_id task_id s')"

text \<open>
  Lines 166 to 183; the parameters in the order of the source, the task id first. The index
  is read again after the loop, with no theme id, and saved with the count of the theme
  one less. The answer \<^verbatim>\<open>Response(status_code=204)\<close> has no content: \<open>Inr ()\<close>.
\<close>

definition delete_task :: "'v storage \<Rightarrow> int \<Rightarrow> int \<Rightarrow> 'v storage \<times> (http_error + unit)" where
  "delete_task s task_id theme_id =
     (case remove_files files theme_id task_id s of
        (s1, Some e) \<Rightarrow> (s1, Inl e)
      | (s1, None) \<Rightarrow>
     (case open_file_theme_index s1 None of
        Inl e \<Rightarrow> (s1, Inl (Unhandled e))
      | Inr themes' \<Rightarrow>
     (case py_index themes' theme_id of
        None \<Rightarrow> (s1, Inl (Unhandled IndexError))
      | Some j \<Rightarrow>
     (case save_file_theme_index
             (themes'[j := (themes' ! j)\<lparr>count := count (themes' ! j) - 1\<rparr>])
             (Some theme_id) (Some task_id) s1 of
        Inl e \<Rightarrow> (s1, Inl (Unhandled e))
      | Inr s2 \<Rightarrow> (s2, Inr ())))))"

section \<open>A small store\<close>

text \<open>
  One theme with one task, as \<^verbatim>\<open>create_task\<close> leaves it: the store on which the theorems
  below are tried out.
\<close>

definition store1 :: "int storage" where
  "store1 =
     \<lparr>themes = [\<lparr>th_id = 0, count = 1\<rparr>],
      records = [(task_info, 0, 1) \<mapsto>
                   \<lparr>info_id = 1, info_theme_id = 0, info_title = ''A'', info_description = ''d''\<rparr>],
      sequences = [(task_input, 0, 1) \<mapsto> [1], (task_output, 0, 1) \<mapsto> [2]],
      blobs = [(task_code, 0, 1) \<mapsto> ''print(1)''],
      journal = []\<rparr>"

text \<open>The same theme before any task was created, and two payloads.\<close>

definition store0 :: "int storage" where
  "store0 =
     \<lparr>themes = [\<lparr>th_id = 0, count = 0\<rparr>], records = Map.empty, sequences = Map.empty,
      blobs = Map.empty, journal = []\<rparr>"

definition payload_a :: "int task_create" where
  "payload_a = \<lparr>title = ''A'', description = ''d'', input = [1], output = [2]\<rparr>"

definition payload_b :: "int task_create" where
  "payload_b = \<lparr>title = ''B'', description = ''e'', input = [3, 4], output = [5, 6]\<rparr>"

text \<open>The task of \<open>store1\<close> with its input values missing: a task stored in part.\<close>

definition store2 :: "int storage" where
  "store2 =
     \<lparr>themes = [\<lparr>th_id = 0, count = 1\<rparr>],
      records = [(task_info, 0, 1) \<mapsto>
                   \<lparr>info_id = 1, info_theme_id = 0, info_title = ''A'', info_description = ''d''\<rparr>],
      sequences = [(task_output, 0, 1) \<mapsto> [2]],
      blobs = [(task_code, 0, 1) \<mapsto> ''print(1)''],
      journal = []\<rparr>"

text \<open>
  A stored task: its theme is in the index and its four resources are there, each of its
  kind.
\<close>

definition stored_task :: "'v storage \<Rightarrow> int \<Rightarrow> int \<Rightarrow> bool" where
  "stored_task s theme_id task_id =
     (theme_exists s theme_id \<and>
      records s (task_info, theme_id, task_id) \<noteq> None \<and>
      sequences s (task_input, theme_id, task_id) \<noteq> None \<and>
      sequences s (task_output, theme_id, task_id) \<noteq> None \<and>
      blobs s (task_code, theme_id, task_id) \<noteq> None)"

text \<open>An update payload with no field, and three with one field each.\<close>

definition no_fields :: "'v task_update" where
  "no_fields = \<lparr>upd_id = None, upd_theme_id = None, upd_title = None, upd_description = None,
                 upd_input = None, upd_output = None\<rparr>"

definition only_title :: "string \<Rightarrow> int task_update" where
  "only_title t = no_fields\<lparr>upd_title := Some t\<rparr>"

definition only_input :: "int list \<Rightarrow> int task_update" where
  "only_input v = no_fields\<lparr>upd_input := Some v\<rparr>"

definition only_output :: "int list \<Rightarrow> int task_update" where
  "only_output v = no_fields\<lparr>upd_output := Some v\<rparr>"

text \<open>
  What a call for the task \<open>(theme_id, task_id)\<close> may change between \<open>s\<close> and \<open>s'\<close>: nothing in
  the theme index, no resource of another task, not the identifiers inside an info record;
  and the journal grows by saves under \<open>(theme_id, task_id)\<close> only.
\<close>

definition within :: "'v storage \<Rightarrow> 'v storage \<Rightarrow> int \<Rightarrow> int \<Rightarrow> bool" where
  "within s s' theme_id task_id =
     (themes s' = themes s \<and>
      (\<forall>k. snd k \<noteq> (theme_id, task_id) \<longrightarrow>
         records s' k = records s k \<and> sequences s' k = sequences s k \<and> blobs s' k = blobs s k) \<and>
      (\<forall>k. map_option info_id (records s' k) = map_option info_id (records s k) \<and>
           map_option info_theme_id (records s' k) = map_option info_theme_id (records s k)) \<and>
      (\<exists>js. journal s' = journal s @ js \<and>
         set js \<subseteq> (\<lambda>ttl. Saved ttl (Some theme_id) (Some task_id)) `
                    {task_info, task_input, task_output, task_code}))"

section \<open>Reading\<close>

lemma theme_exists_range:
  "theme_exists s theme_id =
     (- int (length (themes s)) \<le> theme_id \<and> theme_id < int (length (themes s)))"
  by (auto simp: theme_exists_def py_index_def)

text \<open>
  Claim C6. \<^verbatim>\<open>read_task\<close> leaves the storage as it is. It answers \<open>NotFoundTheme\<close> when the
  theme id is outside the range of the theme index, \<open>NotFoundTask\<close> when the theme id is in
  range and the info record, the input values or the output values are missing, and
  otherwise the task assembled from the stored info record, the stored input values and the
  stored output values.
\<close>

theorem read_task_assembles:
  "read_task s theme_id task_id =
     (s, if \<not> (- int (length (themes s)) \<le> theme_id \<and> theme_id < int (length (themes s)))
         then Inl NotFoundTheme
         else case records s (task_info, theme_id, task_id) of
                None \<Rightarrow> Inl NotFoundTask
              | Some d \<Rightarrow>
           (case sequences s (task_input, theme_id, task_id) of
                None \<Rightarrow> Inl NotFoundTask
              | Some inputs \<Rightarrow>
           (case sequences s (task_output, theme_id, task_id) of
                None \<Rightarrow> Inl NotFoundTask
              | Some outputs \<Rightarrow>
                  Inr \<lparr>title = info_title d, description = info_description d,
                       input = inputs, output = outputs,
                       ident = info_id d, theme_ident = info_theme_id d\<rparr>)))"
  by (simp add: read_task_def open_file_def open_file_values_def theme_exists_range
           split: option.splits)

theorem read_task_assembles_witness:
  "read_task store1 0 1 =
     (store1, Inr \<lparr>title = ''A'', description = ''d'', input = [1], output = [2],
                   ident = 1, theme_ident = 0\<rparr>) \<and>
   read_task store1 0 2 = (store1, Inl NotFoundTask) \<and>
   read_task store1 1 1 = (store1, Inl NotFoundTheme)"
  using read_task_assembles [of store1 0 1] read_task_assembles [of store1 0 2]
    read_task_assembles [of store1 1 1]
  by (simp add: store1_def)

section \<open>Creating\<close>

lemma py_index_less: "py_index xs i = Some j \<Longrightarrow> j < length xs"
  by (auto simp: py_index_def split: if_splits)

lemma py_index_length: "length ys = length xs \<Longrightarrow> py_index ys i = py_index xs i"
  by (simp add: py_index_def)

lemma create_task_valid:
  assumes "py_index (themes s) theme_id = Some j"
  shows "create_task s theme_id task code =
     (s\<lparr>records := (records s)((task_info, theme_id, count (themes s ! j) + 1) \<mapsto>
            \<lparr>info_id = count (themes s ! j) + 1, info_theme_id = theme_id,
             info_title = title task, info_description = description task\<rparr>),
        sequences := (sequences s)
           ((task_input, theme_id, count (themes s ! j) + 1) \<mapsto> input task,
            (task_output, theme_id, count (themes s ! j) + 1) \<mapsto> output task),
        blobs := (blobs s)((task_code, theme_id, count (themes s ! j) + 1) \<mapsto> code),
        themes := (themes s)[j := (themes s ! j)\<lparr>count := count (themes s ! j) + 1\<rparr>],
        journal := journal s @
           [Saved task_info (Some theme_id) (Some (count (themes s ! j) + 1)),
            Saved task_input (Some theme_id) (Some (count (themes s ! j) + 1)),
            Saved task_output (Some theme_id) (Some (count (themes s ! j) + 1)),
            Saved task_code (Some theme_id) (Some (count (themes s ! j) + 1)),
            Saved theme_index None None]\<rparr>,
      Inr \<lparr>title = title task, description = description task,
           input = input task, output = output task,
           ident = count (themes s ! j) + 1, theme_ident = theme_id\<rparr>)"
  using assms
  by (simp add: create_task_def open_file_theme_index_def theme_exists_def Let_def
        save_file_def save_file_values_def save_file_bytes_def save_file_theme_index_def)

lemma create_task_invalid:
  "py_index (themes s) theme_id = None \<Longrightarrow>
   create_task s theme_id task code = (s, Inl NotFoundTheme)"
  by (simp add: create_task_def open_file_theme_index_def theme_exists_def)

text \<open>
  Sequential creates, from any count \<open>c\<close>: the ids are \<open>c + 1, \<dots>, c + N\<close> and the count
  ends at \<open>c + N\<close>. The storage is generalised, since every create changes it.
\<close>

lemma create_tasks_counter:
  assumes "py_index (themes s) theme_id = Some j"
  shows "snd (create_tasks s theme_id ps) =
           Inr [count (themes s ! j) + 1 .. count (themes s ! j) + int (length ps)] \<and>
         py_index (themes (fst (create_tasks s theme_id ps))) theme_id = Some j \<and>
         count (themes (fst (create_tasks s theme_id ps)) ! j) =
           count (themes s ! j) + int (length ps)"
  using assms
proof (induction ps arbitrary: s)
  case Nil
  then show ?case by simp
next
  case (Cons p ps)
  obtain task code where p: "p = (task, code)" by (cases p)
  obtain s' t where c: "create_task s theme_id task code = (s', Inr t)"
    and t: "ident t = count (themes s ! j) + 1"
    and th: "themes s' = (themes s)[j := (themes s ! j)\<lparr>count := count (themes s ! j) + 1\<rparr>]"
    using create_task_valid [OF Cons.prems, of task code] by simp
  have j: "j < length (themes s)" using Cons.prems by (rule py_index_less)
  have ix: "py_index (themes s') theme_id = Some j"
    using Cons.prems py_index_length [of "themes s'" "themes s" theme_id] by (simp add: th)
  have cnt: "count (themes s' ! j) = count (themes s ! j) + 1"
    using j by (simp add: th)
  note IH = Cons.IH [OF ix, unfolded cnt]
  obtain s'' r where cs: "create_tasks s' theme_id ps = (s'', r)"
    by (cases "create_tasks s' theme_id ps")
  have up: "[c + 1 .. c + (1 + int n)] = (c + 1) # [c + 2 .. c + (1 + int n)]"
    for c :: int and n
    by (subst upto_rec1) (simp_all add: add.commute)
  show ?case using IH cs
    by (simp add: p c t up add.assoc)
qed

text \<open>
  Claim C1. Let \<open>theme_id\<close> be a valid index into the theme index, at position \<open>j\<close>.
  Then \<^verbatim>\<open>create_task\<close> succeeds; the new id is the theme's count plus one; the info record,
  the input values, the output values and the code are saved under that id, in this order,
  and the theme index is saved last, with the theme's count set to the new id; the task
  returned has the new id, the theme id and the fields of the payload. Hence \<open>N\<close> sequential
  creates in a theme whose count is 0 hand out the ids \<open>1, \<dots>, N\<close> and leave the count
  at \<open>N\<close>.
\<close>

theorem create_task_counter:
  assumes "py_index (themes s) theme_id = Some j"
  shows "create_task s theme_id task code =
     (s\<lparr>records := (records s)((task_info, theme_id, count (themes s ! j) + 1) \<mapsto>
            \<lparr>info_id = count (themes s ! j) + 1, info_theme_id = theme_id,
             info_title = title task, info_description = description task\<rparr>),
        sequences := (sequences s)
           ((task_input, theme_id, count (themes s ! j) + 1) \<mapsto> input task,
            (task_output, theme_id, count (themes s ! j) + 1) \<mapsto> output task),
        blobs := (blobs s)((task_code, theme_id, count (themes s ! j) + 1) \<mapsto> code),
        themes := (themes s)[j := (themes s ! j)\<lparr>count := count (themes s ! j) + 1\<rparr>],
        journal := journal s @
           [Saved task_info (Some theme_id) (Some (count (themes s ! j) + 1)),
            Saved task_input (Some theme_id) (Some (count (themes s ! j) + 1)),
            Saved task_output (Some theme_id) (Some (count (themes s ! j) + 1)),
            Saved task_code (Some theme_id) (Some (count (themes s ! j) + 1)),
            Saved theme_index None None]\<rparr>,
      Inr \<lparr>title = title task, description = description task,
           input = input task, output = output task,
           ident = count (themes s ! j) + 1, theme_ident = theme_id\<rparr>) \<and>
    (count (themes s ! j) = 0 \<longrightarrow>
       snd (create_tasks s theme_id ps) = Inr [1 .. int (length ps)] \<and>
       map_option count (py_get (themes (fst (create_tasks s theme_id ps))) theme_id) =
         Some (int (length ps)))"
proof (intro conjI impI)
  show "create_task s theme_id task code =
     (s\<lparr>records := (records s)((task_info, theme_id, count (themes s ! j) + 1) \<mapsto>
            \<lparr>info_id = count (themes s ! j) + 1, info_theme_id = theme_id,
             info_title = title task, info_description = description task\<rparr>),
        sequences := (sequences s)
           ((task_input, theme_id, count (themes s ! j) + 1) \<mapsto> input task,
            (task_output, theme_id, count (themes s ! j) + 1) \<mapsto> output task),
        blobs := (blobs s)((task_code, theme_id, count (themes s ! j) + 1) \<mapsto> code),
        themes := (themes s)[j := (themes s ! j)\<lparr>count := count (themes s ! j) + 1\<rparr>],
        journal := journal s @
           [Saved task_info (Some theme_id) (Some (count (themes s ! j) + 1)),
            Saved task_input (Some theme_id) (Some (count (themes s ! j) + 1)),
            Saved task_output (Some theme_id) (Some (count (themes s ! j) + 1)),
            Saved task_code (Some theme_id) (Some (count (themes s ! j) + 1)),
            Saved theme_index None None]\<rparr>,
      Inr \<lparr>title = title task, description = description task,
           input = input task, output = output task,
           ident = count (themes s ! j) + 1, theme_ident = theme_id\<rparr>)"
    using assms by (rule create_task_valid)
next
  assume zero: "count (themes s ! j) = 0"
  show "snd (create_tasks s theme_id ps) = Inr [1 .. int (length ps)]"
    using create_tasks_counter [OF assms, of ps] by (simp add: zero)
  show "map_option count (py_get (themes (fst (create_tasks s theme_id ps))) theme_id) =
          Some (int (length ps))"
    using create_tasks_counter [OF assms, of ps] by (simp add: zero py_get_def)
qed

theorem create_task_counter_witness:
  "py_index (themes store0) 0 = Some 0 \<and>
   snd (create_task store0 0 payload_a ''print(1)'') =
     Inr \<lparr>title = ''A'', description = ''d'', input = [1], output = [2],
          ident = 1, theme_ident = 0\<rparr> \<and>
   journal (fst (create_task store0 0 payload_a ''print(1)'')) =
     [Saved task_info (Some 0) (Some 1), Saved task_input (Some 0) (Some 1),
      Saved task_output (Some 0) (Some 1), Saved task_code (Some 0) (Some 1),
      Saved theme_index None None] \<and>
   snd (create_tasks store0 0 [(payload_a, ''print(1)''), (payload_b, ''print(2)'')]) =
     Inr [1, 2] \<and>
   map_option count
     (py_get (themes (fst (create_tasks store0 0
        [(payload_a, ''print(1)''), (payload_b, ''print(2)'')]))) 0) = Some 2"
proof -
  let ?ps = "[(payload_a, ''print(1)''), (payload_b, ''print(2)'')]"
  have ix: "py_index (themes store0) 0 = Some 0"
    by (simp add: store0_def py_index_def)
  have zero: "count (themes store0 ! 0) = 0"
    by (simp add: store0_def)
  note inst = create_task_counter [OF ix, of payload_a "''print(1)''" ?ps]
  have one: "snd (create_task store0 0 payload_a ''print(1)'') =
     Inr \<lparr>title = ''A'', description = ''d'', input = [1], output = [2],
          ident = 1, theme_ident = 0\<rparr>"
    by (simp add: inst [THEN conjunct1] zero) (simp add: payload_a_def)
  have log: "journal (fst (create_task store0 0 payload_a ''print(1)'')) =
     [Saved task_info (Some 0) (Some 1), Saved task_input (Some 0) (Some 1),
      Saved task_output (Some 0) (Some 1), Saved task_code (Some 0) (Some 1),
      Saved theme_index None None]"
    by (simp add: inst [THEN conjunct1] zero) (simp add: store0_def)
  have upto: "[1 .. int (length ?ps)] = [1, 2]"
    by (simp add: upto_rec1)
  have many: "snd (create_tasks store0 0 ?ps) = Inr [1, 2]"
    using inst [THEN conjunct2, rule_format, OF zero, THEN conjunct1] by (simp only: upto)
  have cnt: "map_option count (py_get (themes (fst (create_tasks store0 0 ?ps))) 0) = Some 2"
    using inst [THEN conjunct2, rule_format, OF zero, THEN conjunct2] by (simp del: create_tasks.simps)
  show ?thesis
    using ix one log many cnt by (simp only: simp_thms)
qed

section \<open>Deleting\<close>

lemma remove_file_missing:
  "theme_exists s theme_id \<Longrightarrow> \<not> present s (ttl, theme_id, task_id) \<Longrightarrow>
   remove_file ttl theme_id task_id s = Inl FileNotFoundError"
  by (simp add: remove_file_def)

lemma remove_file_no_theme:
  "\<not> theme_exists s theme_id \<Longrightarrow> remove_file ttl theme_id task_id s = Inl IndexError"
  by (simp add: remove_file_def)

lemma remove_file_present:
  assumes "theme_exists s theme_id" "present s (ttl, theme_id, task_id)"
  shows "\<exists>s'. remove_file ttl theme_id task_id s = Inr s' \<and>
           themes s' = themes s \<and>
           journal s' = journal s @ [Removed ttl theme_id task_id] \<and>
           records s' = (records s)((ttl, theme_id, task_id) := None) \<and>
           sequences s' = (sequences s)((ttl, theme_id, task_id) := None) \<and>
           blobs s' = (blobs s)((ttl, theme_id, task_id) := None)"
  using assms by (simp add: remove_file_def)

lemma present_after:
  assumes "records s' = (records s)(k := None)" "sequences s' = (sequences s)(k := None)"
    "blobs s' = (blobs s)(k := None)"
  shows "present s' k' = (k' \<noteq> k \<and> present s k')"
  using assms by (auto simp: present_def)

lemma remove_files_no_theme:
  "\<not> theme_exists s theme_id \<Longrightarrow> ts \<noteq> [] \<Longrightarrow>
   remove_files ts theme_id task_id s = (s, Some NotFoundTheme)"
  by (cases ts) (simp_all add: remove_file_no_theme)

lemma remove_files_run:
  assumes "theme_exists s theme_id" "distinct ts"
  shows "snd (remove_files ts theme_id task_id s) =
           (if takeWhile (\<lambda>ttl. present s (ttl, theme_id, task_id)) ts = ts then None
            else Some NotFoundTask) \<and>
         themes (fst (remove_files ts theme_id task_id s)) = themes s \<and>
         journal (fst (remove_files ts theme_id task_id s)) =
           journal s @ map (\<lambda>ttl. Removed ttl theme_id task_id)
             (takeWhile (\<lambda>ttl. present s (ttl, theme_id, task_id)) ts) \<and>
         (\<forall>k. records (fst (remove_files ts theme_id task_id s)) k =
            (if k \<in> (\<lambda>ttl. (ttl, theme_id, task_id)) `
                   set (takeWhile (\<lambda>ttl. present s (ttl, theme_id, task_id)) ts)
             then None else records s k)) \<and>
         (\<forall>k. sequences (fst (remove_files ts theme_id task_id s)) k =
            (if k \<in> (\<lambda>ttl. (ttl, theme_id, task_id)) `
                   set (takeWhile (\<lambda>ttl. present s (ttl, theme_id, task_id)) ts)
             then None else sequences s k)) \<and>
         (\<forall>k. blobs (fst (remove_files ts theme_id task_id s)) k =
            (if k \<in> (\<lambda>ttl. (ttl, theme_id, task_id)) `
                   set (takeWhile (\<lambda>ttl. present s (ttl, theme_id, task_id)) ts)
             then None else blobs s k))"
  using assms
proof (induction ts arbitrary: s)
  case Nil
  then show ?case by simp
next
  case (Cons ttl ts)
  show ?case
  proof (cases "present s (ttl, theme_id, task_id)")
    case False
    then show ?thesis
      using Cons.prems by (simp add: remove_file_missing)
  next
    case True
    from remove_file_present [OF Cons.prems(1) True]
    obtain s' where rm: "remove_file ttl theme_id task_id s = Inr s'"
      and th: "themes s' = themes s"
      and jn: "journal s' = journal s @ [Removed ttl theme_id task_id]"
      and rc: "records s' = (records s)((ttl, theme_id, task_id) := None)"
      and sq: "sequences s' = (sequences s)((ttl, theme_id, task_id) := None)"
      and bl: "blobs s' = (blobs s)((ttl, theme_id, task_id) := None)"
      by blast
    have ex: "theme_exists s' theme_id"
      using Cons.prems(1) by (simp add: theme_exists_def th)
    have same: "takeWhile (\<lambda>t. present s' (t, theme_id, task_id)) ts =
                takeWhile (\<lambda>t. present s (t, theme_id, task_id)) ts"
      using Cons.prems(2) by (intro takeWhile_cong) (auto simp: present_after [OF rc sq bl])
    have dist: "distinct ts" using Cons.prems(2) by simp
    note IH = Cons.IH [OF ex dist, unfolded same th jn rc sq bl]
    show ?thesis
      using IH True by (auto simp: rm)
  qed
qed


lemma delete_task_no_theme:
  assumes "\<not> theme_exists s theme_id"
  shows "delete_task s task_id theme_id = (s, Inl NotFoundTheme)"
proof -
  have "files \<noteq> []" by (simp add: files_def)
  with assms have "remove_files files theme_id task_id s = (s, Some NotFoundTheme)"
    by (rule remove_files_no_theme)
  then show ?thesis by (simp add: delete_task_def)
qed

lemma distinct_files: "distinct files"
  by (simp add: files_def)

lemma delete_task_run:
  assumes "py_index (themes s) theme_id = Some j"
    and pre: "pre = takeWhile (\<lambda>ttl. present s (ttl, theme_id, task_id)) files"
  shows "snd (delete_task s task_id theme_id) =
           (if pre = files then Inr () else Inl NotFoundTask) \<and>
         themes (fst (delete_task s task_id theme_id)) =
           (if pre = files
            then (themes s)[j := (themes s ! j)\<lparr>count := count (themes s ! j) - 1\<rparr>]
            else themes s) \<and>
         journal (fst (delete_task s task_id theme_id)) =
           journal s @ map (\<lambda>ttl. Removed ttl theme_id task_id) pre @
           (if pre = files then [Saved theme_index (Some theme_id) (Some task_id)] else []) \<and>
         (\<forall>k. records (fst (delete_task s task_id theme_id)) k =
            (if k \<in> (\<lambda>ttl. (ttl, theme_id, task_id)) ` set pre then None else records s k)) \<and>
         (\<forall>k. sequences (fst (delete_task s task_id theme_id)) k =
            (if k \<in> (\<lambda>ttl. (ttl, theme_id, task_id)) ` set pre then None
             else sequences s k)) \<and>
         (\<forall>k. blobs (fst (delete_task s task_id theme_id)) k =
            (if k \<in> (\<lambda>ttl. (ttl, theme_id, task_id)) ` set pre then None else blobs s k))"
proof -
  have ex: "theme_exists s theme_id"
    using assms by (simp add: theme_exists_def)
  obtain s1 r where run: "remove_files files theme_id task_id s = (s1, r)"
    by (cases "remove_files files theme_id task_id s")
  note loop = remove_files_run [OF ex distinct_files, of task_id,
      unfolded run fst_conv snd_conv, folded pre]
  have th: "themes s1 = themes s" using loop by simp
  show ?thesis
  proof (cases "pre = files")
    case True
    then have r: "r = None" using loop by simp
    show ?thesis
      using loop
      by (simp add: delete_task_def run r open_file_theme_index_def th assms(1)
            save_file_theme_index_def True)
  next
    case False
    then have r: "r = Some NotFoundTask" using loop by simp
    show ?thesis
      using loop False by (simp add: delete_task_def run r)
  qed
qed

lemma stored_task_present:
  "stored_task s theme_id task_id \<Longrightarrow>
   takeWhile (\<lambda>ttl. present s (ttl, theme_id, task_id)) files = files"
  by (simp add: stored_task_def files_def present_def)

text \<open>
  Claim C5. For a stored task, \<^verbatim>\<open>delete_task\<close> succeeds and answers with no content. Its
  four resources are gone afterwards, so that reading the task then answers \<open>NotFoundTask\<close>;
  the count of its theme is one less than before; the four removals were made in the order
  info, input, output, code, and the theme index was saved last.
\<close>

theorem delete_task_removes:
  assumes "stored_task s theme_id task_id"
  shows "snd (delete_task s task_id theme_id) = Inr () \<and>
    (\<forall>ttl \<in> set files.
        \<not> present (fst (delete_task s task_id theme_id)) (ttl, theme_id, task_id)) \<and>
    read_task (fst (delete_task s task_id theme_id)) theme_id task_id =
      (fst (delete_task s task_id theme_id), Inl NotFoundTask) \<and>
    map_option count (py_get (themes (fst (delete_task s task_id theme_id))) theme_id) =
      map_option (\<lambda>th. count th - 1) (py_get (themes s) theme_id) \<and>
    py_get (themes s) theme_id \<noteq> None \<and>
    journal (fst (delete_task s task_id theme_id)) = journal s @
      [Removed task_info theme_id task_id, Removed task_input theme_id task_id,
       Removed task_output theme_id task_id, Removed task_code theme_id task_id,
       Saved theme_index (Some theme_id) (Some task_id)]"
proof -
  from assms obtain j where ix: "py_index (themes s) theme_id = Some j"
    by (auto simp: stored_task_def theme_exists_def)
  have j: "j < length (themes s)" using ix by (rule py_index_less)
  note run = delete_task_run [OF ix stored_task_present [OF assms, symmetric], simplified]
  let ?s' = "fst (delete_task s task_id theme_id)"
  have th: "themes ?s' = (themes s)[j := (themes s ! j)\<lparr>count := count (themes s ! j) - 1\<rparr>]"
    using run by simp
  have ix': "py_index (themes ?s') theme_id = Some j"
    using ix py_index_length [of "themes ?s'" "themes s" theme_id] by (simp add: th)
  have gone: "\<forall>ttl \<in> set files. \<not> present ?s' (ttl, theme_id, task_id)"
    using run by (simp add: present_def)
  have "task_info \<in> set files" by (simp add: files_def)
  with gone have "records ?s' (task_info, theme_id, task_id) = None"
    by (auto simp: present_def)
  then have rd: "read_task ?s' theme_id task_id = (?s', Inl NotFoundTask)"
    using ix' by (simp add: read_task_def open_file_def theme_exists_def)
  have cnt: "map_option count (py_get (themes ?s') theme_id) =
      map_option (\<lambda>th. count th - 1) (py_get (themes s) theme_id)"
    using j by (simp add: py_get_def ix ix') (simp add: th)
  have jn: "journal ?s' = journal s @
      [Removed task_info theme_id task_id, Removed task_input theme_id task_id,
       Removed task_output theme_id task_id, Removed task_code theme_id task_id,
       Saved theme_index (Some theme_id) (Some task_id)]"
    using run by (simp add: files_def)
  show ?thesis
    using run gone rd cnt jn ix by (simp add: py_get_def)
qed

theorem delete_task_removes_witness:
  "stored_task store1 0 1 \<and>
   snd (delete_task store1 1 0) = Inr () \<and>
   read_task (fst (delete_task store1 1 0)) 0 1 =
     (fst (delete_task store1 1 0), Inl NotFoundTask) \<and>
   map_option count (py_get (themes (fst (delete_task store1 1 0))) 0) = Some 0 \<and>
   \<not> present (fst (delete_task store1 1 0)) (task_code, 0, 1)"
proof -
  have st: "stored_task store1 0 1"
    by (simp add: stored_task_def theme_exists_def py_index_def store1_def)
  have get: "py_get (themes store1) 0 = Some \<lparr>th_id = 0, count = 1\<rparr>"
    by (simp add: py_get_def py_index_def store1_def)
  note inst = delete_task_removes [OF st]
  have gone: "\<not> present (fst (delete_task store1 1 0)) (task_code, 0, 1)"
    using inst by (simp add: files_def)
  show ?thesis
    using st inst gone by (simp add: get)
qed

text \<open>
  Claim C2, as amended. \<^verbatim>\<open>delete_task\<close> answers \<open>NotFoundTheme\<close> and changes nothing when the
  theme id is outside the theme index. Otherwise it removes the four kinds in the order
  info, input, output, code and stops at the first one that is missing: it then answers
  \<open>NotFoundTask\<close>, the kinds before the missing one are removed and stay removed, the kinds
  after it are not touched, and the theme index is left as it was. Only when all four were
  there does it answer with no content.
\<close>

theorem delete_task_stops_at_first_failure:
  "(\<not> theme_exists s theme_id \<longrightarrow> delete_task s task_id theme_id = (s, Inl NotFoundTheme)) \<and>
   (theme_exists s theme_id \<longrightarrow>
     (let pre = takeWhile (\<lambda>ttl. present s (ttl, theme_id, task_id)) files;
          s' = fst (delete_task s task_id theme_id)
      in snd (delete_task s task_id theme_id) =
           (if pre = files then Inr () else Inl NotFoundTask) \<and>
         (pre \<noteq> files \<longrightarrow> themes s' = themes s) \<and>
         journal s' =
           journal s @ map (\<lambda>ttl. Removed ttl theme_id task_id) pre @
           (if pre = files then [Saved theme_index (Some theme_id) (Some task_id)] else []) \<and>
         (\<forall>k. records s' k =
            (if k \<in> (\<lambda>ttl. (ttl, theme_id, task_id)) ` set pre then None else records s k)) \<and>
         (\<forall>k. sequences s' k =
            (if k \<in> (\<lambda>ttl. (ttl, theme_id, task_id)) ` set pre then None
             else sequences s k)) \<and>
         (\<forall>k. blobs s' k =
            (if k \<in> (\<lambda>ttl. (ttl, theme_id, task_id)) ` set pre then None
             else blobs s k))))"
proof (intro conjI impI)
  assume "\<not> theme_exists s theme_id"
  then show "delete_task s task_id theme_id = (s, Inl NotFoundTheme)"
    by (rule delete_task_no_theme)
next
  assume "theme_exists s theme_id"
  then obtain j where ix: "py_index (themes s) theme_id = Some j"
    by (auto simp: theme_exists_def)
  show "let pre = takeWhile (\<lambda>ttl. present s (ttl, theme_id, task_id)) files;
          s' = fst (delete_task s task_id theme_id)
      in snd (delete_task s task_id theme_id) =
           (if pre = files then Inr () else Inl NotFoundTask) \<and>
         (pre \<noteq> files \<longrightarrow> themes s' = themes s) \<and>
         journal s' =
           journal s @ map (\<lambda>ttl. Removed ttl theme_id task_id) pre @
           (if pre = files then [Saved theme_index (Some theme_id) (Some task_id)] else []) \<and>
         (\<forall>k. records s' k =
            (if k \<in> (\<lambda>ttl. (ttl, theme_id, task_id)) ` set pre then None else records s k)) \<and>
         (\<forall>k. sequences s' k =
            (if k \<in> (\<lambda>ttl. (ttl, theme_id, task_id)) ` set pre then None
             else sequences s k)) \<and>
         (\<forall>k. blobs s' k =
            (if k \<in> (\<lambda>ttl. (ttl, theme_id, task_id)) ` set pre then None
             else blobs s k))"
    unfolding Let_def
    using delete_task_run [OF ix refl, of task_id] by presburger
qed

theorem delete_task_stops_at_first_failure_witness:
  "theme_exists store2 0 \<and>
   takeWhile (\<lambda>ttl. present store2 (ttl, 0, 1)) files = [task_info] \<and>
   snd (delete_task store2 1 0) = Inl NotFoundTask \<and>
   themes (fst (delete_task store2 1 0)) = themes store2 \<and>
   journal (fst (delete_task store2 1 0)) = [Removed task_info 0 1] \<and>
   records (fst (delete_task store2 1 0)) (task_info, 0, 1) = None \<and>
   blobs (fst (delete_task store2 1 0)) (task_code, 0, 1) = Some ''print(1)''"
proof -
  have ex: "theme_exists store2 0"
    by (simp add: theme_exists_def py_index_def store2_def)
  have pre: "takeWhile (\<lambda>ttl. present store2 (ttl, 0, 1)) files = [task_info]"
    by (simp add: files_def present_def store2_def)
  note inst = delete_task_stops_at_first_failure [of store2 0 1, THEN conjunct2,
      rule_format, OF ex, unfolded Let_def pre]
  have jn: "journal store2 = []" and bl: "blobs store2 (task_code, 0, 1) = Some ''print(1)''"
    by (simp_all add: store2_def)
  show ?thesis
    using ex pre inst by (simp add: files_def jn bl)
qed

text \<open>
  Claim C2, as stated, fails on \<open>store2\<close>, whose task has no input values. The removal of
  the info record succeeds, the removal of the input values raises, and the handler ends
  there: the output values and the code are still there afterwards, a removal of either
  would succeed (\<open>remove_file\<close> returns no error on them), and the journal holds the one
  removal that was made.
\<close>

theorem delete_task_attempts_all_counterexample:
  "theme_exists store2 0 \<and>
   present store2 (task_output, 0, 1) \<and>
   present store2 (task_code, 0, 1) \<and>
   snd (delete_task store2 1 0) = Inl NotFoundTask \<and>
   journal (fst (delete_task store2 1 0)) = [Removed task_info 0 1] \<and>
   present (fst (delete_task store2 1 0)) (task_output, 0, 1) \<and>
   present (fst (delete_task store2 1 0)) (task_code, 0, 1) \<and>
   \<not> isl (remove_file task_output 0 1 (fst (delete_task store2 1 0))) \<and>
   \<not> isl (remove_file task_code 0 1 (fst (delete_task store2 1 0)))"
  by (simp add: delete_task_def files_def remove_file_def present_def theme_exists_def
        py_index_def store2_def)

section \<open>Updating\<close>

lemma update_task_no_upload:
  "update_task s theme_id task_id task None = (s, Inl (Unhandled AttributeError))"
  by (simp add: update_task_def)

lemma update_description_effect:
  "update_description s theme_id task_id new_title new_description =
     (if \<not> (truthy new_title \<or> truthy new_description) then Inr s
      else if \<not> theme_exists s theme_id then Inl NotFoundTheme
      else case records s (task_info, theme_id, task_id) of
             None \<Rightarrow> Inl NotFoundTask
           | Some d \<Rightarrow>
               Inr (s\<lparr>records := (records s)((task_info, theme_id, task_id) \<mapsto>
                         d\<lparr>info_title := if_else new_title (info_title d),
                           info_description := if_else new_description (info_description d)\<rparr>),
                      journal := journal s @ [Saved task_info (Some theme_id) (Some task_id)]\<rparr>))"
  by (simp add: update_description_def open_file_def save_file_def split: option.splits)

lemma update_values_effect:
  "update_values ttl s theme_id task_id new_values =
     Inr (if truthy new_values
          then s\<lparr>sequences := (sequences s)((ttl, theme_id, task_id) := new_values),
                 journal := journal s @ [Saved ttl (Some theme_id) (Some task_id)]\<rparr>
          else s)"
  by (simp add: update_values_def save_file_values_def truthy_def split: option.splits)

lemma update_code_effect:
  "update_code s theme_id task_id new_code =
     Inr (if new_code \<noteq> []
          then s\<lparr>blobs := (blobs s)((task_code, theme_id, task_id) \<mapsto> new_code),
                 journal := journal s @ [Saved task_code (Some theme_id) (Some task_id)]\<rparr>
          else s)"
  by (simp add: update_code_def save_file_bytes_def)


lemma update_task_upload:
  "update_task s theme_id task_id task (Some c) =
     (if \<not> (truthy (upd_title task) \<or> truthy (upd_description task) \<or>
             truthy (upd_input task) \<or> truthy (upd_output task) \<or> c \<noteq> [])
      then (s, Inl EmptyRequest)
      else case update_description s theme_id task_id (upd_title task) (upd_description task) of
             Inl e \<Rightarrow> (s, Inl e)
           | Inr s1 \<Rightarrow>
               (case update_code
                       (case update_values task_output
                               (case update_values task_input s1 theme_id task_id (upd_input task) of
                                  Inr s2 \<Rightarrow> s2 | Inl e \<Rightarrow> s1)
                               theme_id task_id (upd_output task) of
                          Inr s3 \<Rightarrow> s3 | Inl e \<Rightarrow> s1)
                       theme_id task_id c of
                  Inr s4 \<Rightarrow> (s4, Inr (task\<lparr>upd_theme_id := Some theme_id, upd_id := Some task_id\<rparr>))
                | Inl e \<Rightarrow> (s1, Inl e)))"
  by (simp add: update_task_def update_values_effect update_code_effect Let_def
        split: sum.splits)

lemma within_refl: "within s s theme_id task_id"
  by (simp add: within_def)

lemma within_trans:
  "within s s1 theme_id task_id \<Longrightarrow> within s1 s2 theme_id task_id \<Longrightarrow>
   within s s2 theme_id task_id"
  unfolding within_def
  by (elim conjE exE, intro conjI; simp)

lemma within_description:
  "update_description s theme_id task_id t d = Inr s' \<Longrightarrow> within s s' theme_id task_id"
  by (auto simp: update_description_effect within_def split: if_splits option.splits)

lemma within_values:
  "ttl \<in> {task_input, task_output} \<Longrightarrow>
   update_values ttl s theme_id task_id v = Inr s' \<Longrightarrow> within s s' theme_id task_id"
  by (auto simp: update_values_effect within_def split: if_splits)

lemma within_code:
  "update_code s theme_id task_id c = Inr s' \<Longrightarrow> within s s' theme_id task_id"
  by (auto simp: update_code_effect within_def split: if_splits)

lemma update_task_within:
  "within s (fst (update_task s theme_id task_id task code)) theme_id task_id"
proof (cases code)
  case None
  then show ?thesis by (simp add: update_task_no_upload within_refl)
next
  case (Some c)
  show ?thesis
  proof (cases "update_description s theme_id task_id (upd_title task) (upd_description task)")
    case (Inl e)
    then show ?thesis by (simp add: Some update_task_upload within_refl)
  next
    case (Inr s1)
    obtain s2 where s2: "update_values task_input s1 theme_id task_id (upd_input task) = Inr s2"
      by (simp add: update_values_effect)
    obtain s3 where s3: "update_values task_output s2 theme_id task_id (upd_output task) = Inr s3"
      by (simp add: update_values_effect)
    obtain s4 where s4: "update_code s3 theme_id task_id c = Inr s4"
      by (simp add: update_code_effect)
    have "within s s4 theme_id task_id"
      using within_description [OF Inr] within_values [OF _ s2] within_values [OF _ s3]
        within_code [OF s4]
      by (blast intro: within_trans)
    then show ?thesis
      by (simp add: Some update_task_upload Inr s2 s3 s4 within_refl)
  qed
qed


lemma update_task_body_ids:
  "update_task s theme_id task_id (task\<lparr>upd_id := i, upd_theme_id := t\<rparr>) code =
   update_task s theme_id task_id task code"
  by (simp add: update_task_def)

lemma update_task_response:
  "snd (update_task s theme_id task_id task code) = Inr r \<Longrightarrow>
   r = task\<lparr>upd_theme_id := Some theme_id, upd_id := Some task_id\<rparr>"
  by (cases code)
    (auto simp: update_task_no_upload update_task_upload update_values_effect update_code_effect
       split: if_splits sum.splits)

subsection \<open>The blocks of an update, one after the other\<close>

lemma update_description_fields:
  assumes "update_description s theme_id task_id t d = Inr s'"
  shows "sequences s' = sequences s" and "blobs s' = blobs s"
    and "\<not> truthy t \<Longrightarrow> map_option info_title (records s' k) = map_option info_title (records s k)"
    and "\<not> truthy d \<Longrightarrow>
         map_option info_description (records s' k) = map_option info_description (records s k)"
    and "records s' k = Some r' \<Longrightarrow>
         \<exists>r. records s k = Some r \<and> (info_title r' = [] \<longrightarrow> info_title r = []) \<and>
             (info_description r' = [] \<longrightarrow> info_description r = [])"
  using assms
  by (auto simp: update_description_effect if_else_def truthy_def
        split: if_splits option.splits)

lemma update_values_fields:
  assumes "update_values ttl s theme_id task_id v = Inr s'"
  shows "records s' = records s" and "blobs s' = blobs s"
    and "\<not> truthy v \<Longrightarrow> sequences s' = sequences s"
    and "ttl' \<noteq> ttl \<Longrightarrow> sequences s' (ttl', t, k) = sequences s (ttl', t, k)"
    and "sequences s' key = Some [] \<Longrightarrow> sequences s key = Some []"
  using assms
  by (auto simp: update_values_effect truthy_def split: if_splits option.splits)

lemma update_code_fields:
  assumes "update_code s theme_id task_id c = Inr s'"
  shows "records s' = records s" and "sequences s' = sequences s"
    and "c = [] \<Longrightarrow> blobs s' = blobs s"
    and "blobs s' key = Some [] \<Longrightarrow> blobs s key = Some []"
  using assms
  by (auto simp: update_code_effect split: if_splits)

lemma update_task_steps:
  obtains (rejected) "fst (update_task s theme_id task_id task code) = s"
  | (carried) c s1 s2 s3 where "code = Some c"
      and "update_description s theme_id task_id (upd_title task) (upd_description task) = Inr s1"
      and "update_values task_input s1 theme_id task_id (upd_input task) = Inr s2"
      and "update_values task_output s2 theme_id task_id (upd_output task) = Inr s3"
      and "update_code s3 theme_id task_id c =
             Inr (fst (update_task s theme_id task_id task code))"
proof (cases code)
  case None
  then show ?thesis by (simp add: update_task_no_upload rejected)
next
  case (Some c)
  show ?thesis
  proof (cases "update_description s theme_id task_id (upd_title task) (upd_description task)")
    case (Inl e)
    then show ?thesis by (simp add: Some update_task_upload rejected)
  next
    case (Inr s1)
    obtain s2 where s2: "update_values task_input s1 theme_id task_id (upd_input task) = Inr s2"
      by (simp add: update_values_effect)
    obtain s3 where s3: "update_values task_output s2 theme_id task_id (upd_output task) = Inr s3"
      by (simp add: update_values_effect)
    obtain s4 where s4: "update_code s3 theme_id task_id c = Inr s4"
      by (simp add: update_code_effect)
    show ?thesis
    proof (cases "truthy (upd_title task) \<or> truthy (upd_description task) \<or>
                 truthy (upd_input task) \<or> truthy (upd_output task) \<or> c \<noteq> []")
      case True
      then have "fst (update_task s theme_id task_id task code) = s4"
        by (simp add: Some update_task_upload Inr s2 s3 s4)
      with Some Inr s2 s3 s4 show ?thesis by (auto intro: carried)
    next
      case False
      then show ?thesis by (simp add: Some update_task_upload rejected)
    qed
  qed
qed

text \<open>
  A field whose value is absent or empty is skipped: the stored value stays. This holds
  for every request, with or without an upload.
\<close>

lemma update_task_skips_empty:
  "(\<not> truthy (upd_title task) \<longrightarrow>
      (\<forall>k. map_option info_title (records (fst (update_task s theme_id task_id task code)) k) =
           map_option info_title (records s k))) \<and>
   (\<not> truthy (upd_description task) \<longrightarrow>
      (\<forall>k. map_option info_description
             (records (fst (update_task s theme_id task_id task code)) k) =
           map_option info_description (records s k))) \<and>
   (\<not> truthy (upd_input task) \<longrightarrow>
      (\<forall>t k. sequences (fst (update_task s theme_id task_id task code)) (task_input, t, k) =
             sequences s (task_input, t, k))) \<and>
   (\<not> truthy (upd_output task) \<longrightarrow>
      (\<forall>t k. sequences (fst (update_task s theme_id task_id task code)) (task_output, t, k) =
             sequences s (task_output, t, k))) \<and>
   (\<not> truthy code \<longrightarrow> blobs (fst (update_task s theme_id task_id task code)) = blobs s)"
proof (cases rule: update_task_steps [of s theme_id task_id task code])
  case rejected
  then show ?thesis by simp
next
  case (carried c s1 s2 s3)
  let ?s' = "fst (update_task s theme_id task_id task code)"
  note d = update_description_fields [OF carried(2)]
  note i = update_values_fields [OF carried(3)]
  note out = update_values_fields [OF carried(4)]
  note cd = update_code_fields [OF carried(5)]
  have rec: "records ?s' = records s1"
    by (simp add: cd(1) out(1) i(1))
  have blob: "c = [] \<Longrightarrow> blobs ?s' = blobs s"
    by (simp add: cd(3) out(2) i(2) d(2))
  have inp: "\<not> truthy (upd_input task) \<Longrightarrow>
      sequences ?s' (task_input, t, k) = sequences s (task_input, t, k)" for t k
    by (simp add: cd(2) out(4) i(3) d(1))
  have outp: "\<not> truthy (upd_output task) \<Longrightarrow>
      sequences ?s' (task_output, t, k) = sequences s (task_output, t, k)" for t k
    by (simp add: cd(2) out(3) i(4) d(1))
  have c: "\<not> truthy code \<Longrightarrow> c = []"
    by (simp add: carried(1) truthy_def)
  show ?thesis
    using d(3,4) inp outp blob c by (simp add: rec)
qed

lemma update_task_never_empties:
  "(records (fst (update_task s theme_id task_id task code)) k = Some d' \<longrightarrow>
      (\<exists>d. records s k = Some d \<and>
           (info_title d' = [] \<longrightarrow> info_title d = []) \<and>
           (info_description d' = [] \<longrightarrow> info_description d = []))) \<and>
   (sequences (fst (update_task s theme_id task_id task code)) k = Some [] \<longrightarrow>
      sequences s k = Some []) \<and>
   (blobs (fst (update_task s theme_id task_id task code)) k = Some [] \<longrightarrow>
      blobs s k = Some [])"
proof (cases rule: update_task_steps [of s theme_id task_id task code])
  case rejected
  then show ?thesis by simp
next
  case (carried c s1 s2 s3)
  let ?s' = "fst (update_task s theme_id task_id task code)"
  note d = update_description_fields [OF carried(2)]
  note i = update_values_fields [OF carried(3)]
  note out = update_values_fields [OF carried(4)]
  note cd = update_code_fields [OF carried(5)]
  have rec: "records ?s' = records s1"
    by (simp add: cd(1) out(1) i(1))
  have sq: "sequences ?s' k = Some [] \<Longrightarrow> sequences s k = Some []"
    using out(5) [of k] i(5) [of k] by (simp add: cd(2) d(1))
  have bl: "blobs ?s' k = Some [] \<Longrightarrow> blobs s k = Some []"
    using cd(4) [of k] by (simp add: out(2) i(2) d(2))
  show ?thesis
    using d(5) [of k d'] sq bl by (simp add: rec)
qed

text \<open>
  With an upload that reads as empty, a request whose fields are all absent or empty is
  rejected as an empty request.
\<close>

lemma update_task_empty_values:
  "\<not> truthy (upd_title task) \<Longrightarrow> \<not> truthy (upd_description task) \<Longrightarrow>
   \<not> truthy (upd_input task) \<Longrightarrow> \<not> truthy (upd_output task) \<Longrightarrow>
   update_task s theme_id task_id task (Some []) = (s, Inl EmptyRequest)"
  by (simp add: update_task_upload)

subsection \<open>Unknown tasks and themes\<close>

text \<open>
  Reading and deleting answer \<open>NotFoundTask\<close> or \<open>NotFoundTheme\<close> and change nothing; so does an
  update that comes with an upload and a title or a description.
\<close>

lemma read_task_not_found:
  "\<not> theme_exists s theme_id \<Longrightarrow> read_task s theme_id task_id = (s, Inl NotFoundTheme)"
  "theme_exists s theme_id \<Longrightarrow> records s (task_info, theme_id, task_id) = None \<Longrightarrow>
   read_task s theme_id task_id = (s, Inl NotFoundTask)"
  by (simp_all add: read_task_def open_file_def)

lemma delete_task_not_found:
  assumes "theme_exists s theme_id" "\<not> present s (task_info, theme_id, task_id)"
  shows "delete_task s task_id theme_id = (s, Inl NotFoundTask)"
  using assms by (simp add: delete_task_def files_def remove_file_missing)

lemma update_task_not_found:
  assumes "truthy (upd_title task) \<or> truthy (upd_description task)"
  shows "\<not> theme_exists s theme_id \<Longrightarrow>
           update_task s theme_id task_id task (Some c) = (s, Inl NotFoundTheme)"
    and "theme_exists s theme_id \<Longrightarrow> records s (task_info, theme_id, task_id) = None \<Longrightarrow>
           update_task s theme_id task_id task (Some c) = (s, Inl NotFoundTask)"
  using assms by (auto simp: update_task_upload update_description_effect)

subsection \<open>The claims about an update\<close>

text \<open>
  Claim C3. Take an update that supplies a title and neither a description nor input values
  nor output values, with no code upload or with an upload that reads as empty. Whatever
  its outcome, afterwards the input values, the output values, the code and the theme index
  are as before, every other info record is as before, and the info record of the task has
  its description and its identifiers as before: at most its title has changed. For a
  stored task, a title that is not empty and an upload that reads as empty, the update
  succeeds and the stored title is the new one.
\<close>

theorem update_task_title_only:
  assumes "upd_description task = None" "upd_input task = None" "upd_output task = None"
    and "code = None \<or> code = Some []"
  shows "sequences (fst (update_task s theme_id task_id task code)) = sequences s \<and>
    blobs (fst (update_task s theme_id task_id task code)) = blobs s \<and>
    themes (fst (update_task s theme_id task_id task code)) = themes s \<and>
    (\<forall>k. k \<noteq> (task_info, theme_id, task_id) \<longrightarrow>
         records (fst (update_task s theme_id task_id task code)) k = records s k) \<and>
    (\<forall>k. map_option info_description (records (fst (update_task s theme_id task_id task code)) k) =
           map_option info_description (records s k) \<and>
         map_option info_id (records (fst (update_task s theme_id task_id task code)) k) =
           map_option info_id (records s k) \<and>
         map_option info_theme_id (records (fst (update_task s theme_id task_id task code)) k) =
           map_option info_theme_id (records s k)) \<and>
    (stored_task s theme_id task_id \<and> truthy (upd_title task) \<and> code = Some [] \<longrightarrow>
       snd (update_task s theme_id task_id task code) =
         Inr (task\<lparr>upd_theme_id := Some theme_id, upd_id := Some task_id\<rparr>) \<and>
       map_option info_title
         (records (fst (update_task s theme_id task_id task code)) (task_info, theme_id, task_id)) =
         upd_title task)"
proof (cases code)
  case None
  then show ?thesis by (simp add: update_task_no_upload)
next
  case (Some c)
  with assms(4) have c: "c = []" by simp
  have nt: "\<not> truthy (None :: 'a list option)" "\<not> truthy (None :: string option)"
    by (simp_all add: truthy_def)
  show ?thesis
    by (auto simp: Some c assms(1-3) nt update_task_upload update_description_effect
          update_values_effect update_code_effect stored_task_def if_else_def truthy_def
        split: option.splits)
qed

theorem update_task_title_only_witness:
  "stored_task store1 0 1 \<and>
   snd (update_task store1 0 1 (only_title ''B'') (Some [])) =
     Inr ((only_title ''B'')\<lparr>upd_theme_id := Some 0, upd_id := Some 1\<rparr>) \<and>
   map_option info_title
     (records (fst (update_task store1 0 1 (only_title ''B'') (Some []))) (task_info, 0, 1)) =
     Some ''B'' \<and>
   map_option info_description
     (records (fst (update_task store1 0 1 (only_title ''B'') (Some []))) (task_info, 0, 1)) =
     Some ''d'' \<and>
   sequences (fst (update_task store1 0 1 (only_title ''B'') (Some []))) (task_input, 0, 1) =
     Some [1] \<and>
   sequences (fst (update_task store1 0 1 (only_title ''B'') (Some []))) (task_output, 0, 1) =
     Some [2] \<and>
   blobs (fst (update_task store1 0 1 (only_title ''B'') (Some []))) (task_code, 0, 1) =
     Some ''print(1)''"
proof -
  have st: "stored_task store1 0 1"
    by (simp add: stored_task_def theme_exists_def py_index_def store1_def)
  have f: "upd_description (only_title ''B'') = None" "upd_input (only_title ''B'') = None"
    "upd_output (only_title ''B'') = None" "upd_title (only_title ''B'') = Some ''B''"
    by (simp_all add: only_title_def no_fields_def)
  have tr: "truthy (upd_title (only_title ''B''))"
    by (simp add: f truthy_def)
  have c: "Some [] = None \<or> Some [] = Some ([] :: string)" by simp
  note inst = update_task_title_only [OF f(1-3) c, of store1 0 1]
  have old: "map_option info_description (records store1 (task_info, 0, 1)) = Some ''d''"
    "sequences store1 (task_input, 0, 1) = Some [1]"
    "sequences store1 (task_output, 0, 1) = Some [2]"
    "blobs store1 (task_code, 0, 1) = Some ''print(1)''"
    by (simp_all add: store1_def)
  show ?thesis
    using st tr inst by (simp add: old f(4))
qed

text \<open>
  Claim C8. When \<^verbatim>\<open>update_task\<close> succeeds, the task it returns is the payload of the request
  with the two identifiers of the path: every other field of the answer is the field of the
  request, absent where the request has none, and the answer is the same on every storage
  on which the call succeeds.
\<close>

theorem update_task_response_from_request:
  assumes "snd (update_task s theme_id task_id task code) = Inr r"
  shows "r = task\<lparr>upd_theme_id := Some theme_id, upd_id := Some task_id\<rparr> \<and>
         upd_id r = Some task_id \<and> upd_theme_id r = Some theme_id \<and>
         upd_title r = upd_title task \<and> upd_description r = upd_description task \<and>
         upd_input r = upd_input task \<and> upd_output r = upd_output task \<and>
         (\<forall>s2 r2. snd (update_task s2 theme_id task_id task code) = Inr r2 \<longrightarrow> r2 = r)"
proof -
  have r: "r = task\<lparr>upd_theme_id := Some theme_id, upd_id := Some task_id\<rparr>"
    using assms by (rule update_task_response)
  have "\<forall>s2 r2. snd (update_task s2 theme_id task_id task code) = Inr r2 \<longrightarrow> r2 = r"
    by (auto simp: r dest: update_task_response)
  then show ?thesis by (simp add: r)
qed

theorem update_task_response_from_request_witness:
  "snd (update_task store1 0 1 (only_output [9]) (Some [])) =
     Inr ((only_output [9])\<lparr>upd_theme_id := Some 0, upd_id := Some 1\<rparr>) \<and>
   upd_title ((only_output [9])\<lparr>upd_theme_id := Some 0, upd_id := Some 1\<rparr>) = None \<and>
   upd_output ((only_output [9])\<lparr>upd_theme_id := Some 0, upd_id := Some 1\<rparr>) = Some [9] \<and>
   map_option info_title (records store1 (task_info, 0, 1)) = Some ''A''"
proof -
  have ok: "snd (update_task store1 0 1 (only_output [9]) (Some [])) =
     Inr ((only_output [9])\<lparr>upd_theme_id := Some 0, upd_id := Some 1\<rparr>)"
    by (simp add: update_task_upload update_description_effect update_values_effect
          update_code_effect truthy_def only_output_def no_fields_def)
  note inst = update_task_response_from_request [OF ok]
  have t: "upd_title (only_output [9]) = None" "upd_output (only_output [9]) = Some [9]"
    by (simp_all add: only_output_def no_fields_def)
  from inst have title: "upd_title ((only_output [9])\<lparr>upd_theme_id := Some 0, upd_id := Some 1\<rparr>) =
      upd_title (only_output [9])"
    by (elim conjE)
  from inst have out: "upd_output ((only_output [9])\<lparr>upd_theme_id := Some 0, upd_id := Some 1\<rparr>) =
      upd_output (only_output [9])"
    by (elim conjE)
  have old: "map_option info_title (records store1 (task_info, 0, 1)) = Some ''A''"
    by (simp add: store1_def)
  from ok title [unfolded t] out [unfolded t] old show ?thesis
    by (intro conjI)
qed

text \<open>
  Claim C9. The identifiers in the body of an update request have no effect: the call does
  the same whatever they are. The answer of a successful call carries the identifiers of
  the path; every save of the call is made under the identifiers of the path, and no
  resource of another task and no entry of the theme index changes; and the identifiers
  inside a stored info record stay as they are.
\<close>

theorem update_task_path_identifiers:
  "update_task s theme_id task_id (task\<lparr>upd_id := i, upd_theme_id := t\<rparr>) code =
     update_task s theme_id task_id task code \<and>
   (\<forall>r. snd (update_task s theme_id task_id task code) = Inr r \<longrightarrow>
        upd_id r = Some task_id \<and> upd_theme_id r = Some theme_id) \<and>
   (\<exists>js. journal (fst (update_task s theme_id task_id task code)) = journal s @ js \<and>
         set js \<subseteq> (\<lambda>ttl. Saved ttl (Some theme_id) (Some task_id)) `
                    {task_info, task_input, task_output, task_code}) \<and>
   (\<forall>k. snd k \<noteq> (theme_id, task_id) \<longrightarrow>
        records (fst (update_task s theme_id task_id task code)) k = records s k \<and>
        sequences (fst (update_task s theme_id task_id task code)) k = sequences s k \<and>
        blobs (fst (update_task s theme_id task_id task code)) k = blobs s k) \<and>
   (\<forall>k. map_option info_id (records (fst (update_task s theme_id task_id task code)) k) =
          map_option info_id (records s k) \<and>
        map_option info_theme_id (records (fst (update_task s theme_id task_id task code)) k) =
          map_option info_theme_id (records s k)) \<and>
   themes (fst (update_task s theme_id task_id task code)) = themes s"
proof -
  note w = update_task_within [of s theme_id task_id task code, unfolded within_def]
  have resp: "\<forall>r. snd (update_task s theme_id task_id task code) = Inr r \<longrightarrow>
        upd_id r = Some task_id \<and> upd_theme_id r = Some theme_id"
    by (auto dest: update_task_response)
  show ?thesis
    using w resp by (simp add: update_task_body_ids)
qed

theorem update_task_path_identifiers_witness:
  "update_task store1 0 1 ((only_title ''B'')\<lparr>upd_id := Some 7, upd_theme_id := Some 8\<rparr>)
      (Some ''x'') =
     update_task store1 0 1 (only_title ''B'') (Some ''x'') \<and>
   map_option info_id
     (records (fst (update_task store1 0 1 (only_title ''B'') (Some ''x''))) (task_info, 0, 1)) =
     Some 1 \<and>
   map_option info_theme_id
     (records (fst (update_task store1 0 1 (only_title ''B'') (Some ''x''))) (task_info, 0, 1)) =
     Some 0 \<and>
   themes (fst (update_task store1 0 1 (only_title ''B'') (Some ''x''))) = themes store1"
proof -
  note inst = update_task_path_identifiers
    [where s = store1 and theme_id = 0 and task_id = 1 and task = "only_title ''B''"
       and i = "Some 7" and t = "Some 8" and code = "Some ''x''"]
  have old: "map_option info_id (records store1 (task_info, 0, 1)) = Some 1"
    "map_option info_theme_id (records store1 (task_info, 0, 1)) = Some 0"
    by (simp_all add: store1_def)
  from inst have body: "update_task store1 0 1
        ((only_title ''B'')\<lparr>upd_id := Some 7, upd_theme_id := Some 8\<rparr>) (Some ''x'') =
      update_task store1 0 1 (only_title ''B'') (Some ''x'')"
    by (rule conjunct1)
  from inst have ids: "\<forall>k.
      map_option info_id
        (records (fst (update_task store1 0 1 (only_title ''B'') (Some ''x''))) k) =
        map_option info_id (records store1 k) \<and>
      map_option info_theme_id
        (records (fst (update_task store1 0 1 (only_title ''B'') (Some ''x''))) k) =
        map_option info_theme_id (records store1 k)"
    by (elim conjE)
  from inst have th: "themes (fst (update_task store1 0 1 (only_title ''B'') (Some ''x''))) =
      themes store1"
    by (elim conjE)
  from ids [rule_format, of "(task_info, 0, 1)"] old body th show ?thesis
    by (simp only: simp_thms)
qed

text \<open>
  Claim C4, on the code. An update request with no field and no code upload does not reach
  the check for an empty request: line 107 calls \<^verbatim>\<open>code.read()\<close> on \<^verbatim>\<open>None\<close>, and the request
  is answered with an internal server error. The storage is left as it was. With an upload
  that reads as empty the same request is answered with \<open>EmptyRequest\<close>.
\<close>

theorem update_task_empty_without_upload:
  "update_task s theme_id task_id no_fields None = (s, Inl (Unhandled AttributeError)) \<and>
   status_code (Unhandled AttributeError) = 500 \<and>
   update_task s theme_id task_id no_fields (Some []) = (s, Inl EmptyRequest) \<and>
   status_code EmptyRequest = 422"
  by (simp add: update_task_no_upload update_task_upload no_fields_def truthy_def)

text \<open>
  Claim C7, on the code. Task 5 of theme 0 was never created in \<open>store1\<close>. An update of it
  with a title and no code upload is answered with an internal server error, not with
  \<open>NotFoundTask\<close>. An update of it with input values only, and an upload that reads as empty,
  succeeds and leaves input values behind for a task that has no other resource.
\<close>

theorem update_task_unknown_task:
  "records store1 (task_info, 0, 5) = None \<and>
   sequences store1 (task_input, 0, 5) = None \<and>
   sequences store1 (task_output, 0, 5) = None \<and>
   blobs store1 (task_code, 0, 5) = None \<and>
   update_task store1 0 5 (only_title ''B'') None = (store1, Inl (Unhandled AttributeError)) \<and>
   snd (update_task store1 0 5 (only_input [7]) (Some [])) =
     Inr ((only_input [7])\<lparr>upd_theme_id := Some 0, upd_id := Some 5\<rparr>) \<and>
   sequences (fst (update_task store1 0 5 (only_input [7]) (Some []))) (task_input, 0, 5) =
     Some [7] \<and>
   records (fst (update_task store1 0 5 (only_input [7]) (Some []))) (task_info, 0, 5) = None \<and>
   journal (fst (update_task store1 0 5 (only_input [7]) (Some []))) =
     [Saved task_input (Some 0) (Some 5)]"
  by (simp add: update_task_no_upload update_task_upload update_description_effect
        update_values_effect update_code_effect truthy_def only_input_def no_fields_def)
    (simp add: store1_def)

text \<open>
  Claim C10, on the code. An upload that reads as empty is not treated as an absent upload:
  with the former, a request whose only field is an empty title is rejected as an empty
  request and a request with a title is carried out; with the latter, both are answered
  with an internal server error and nothing is carried out.
\<close>

theorem update_task_empty_upload_not_absent:
  "update_task store1 0 1 (only_title '''') (Some []) = (store1, Inl EmptyRequest) \<and>
   update_task store1 0 1 (only_title '''') None = (store1, Inl (Unhandled AttributeError)) \<and>
   snd (update_task store1 0 1 (only_title ''B'') (Some [])) =
     Inr ((only_title ''B'')\<lparr>upd_theme_id := Some 0, upd_id := Some 1\<rparr>) \<and>
   snd (update_task store1 0 1 (only_title ''B'') None) = Inl (Unhandled AttributeError)"
proof -
  have f: "upd_title (only_title t) = Some t" "upd_description (only_title t) = None"
    "upd_input (only_title t) = None" "upd_output (only_title t) = None" for t
    by (simp_all add: only_title_def no_fields_def)
  have ex: "theme_exists store1 0"
    by (simp add: theme_exists_def py_index_def store1_def)
  have rc: "records store1 (task_info, 0, 1) =
      Some \<lparr>info_id = 1, info_theme_id = 0, info_title = ''A'', info_description = ''d''\<rparr>"
    by (simp add: store1_def)
  have empty: "update_task store1 0 1 (only_title '''') (Some []) = (store1, Inl EmptyRequest)"
    by (simp add: update_task_upload f truthy_def)
  have none: "update_task store1 0 1 (only_title t) None =
      (store1, Inl (Unhandled AttributeError))" for t
    by (rule update_task_no_upload)
  have carried: "snd (update_task store1 0 1 (only_title ''B'') (Some [])) =
      Inr ((only_title ''B'')\<lparr>upd_theme_id := Some 0, upd_id := Some 1\<rparr>)"
    by (simp add: update_task_upload update_description_effect update_values_effect
          update_code_effect f truthy_def ex rc)
  show ?thesis
    using empty carried by (simp add: none)
qed

end
